theory Spec2Isabelle
  imports Main
begin

section \<open>The shell fragment used by the buildspec\<close>

text \<open>
  The buildspec of \<^verbatim>\<open>lib/pipeline.stack.ts\<close> sets \<^verbatim>\<open>env: {shell: 'bash'}\<close> and
  version 0.2, so all commands of a build run in one bash instance and variables set by
  one command are seen by the following ones. The commands are translated by hand into
  HOL functions on a build state; this section holds the bash constructs they use:
  parameter expansion, field splitting, pathname expansion, the \<^verbatim>\<open>echo\<close> and
  \<^verbatim>\<open>printf\<close> builtins, \<^verbatim>\<open>cut -c\<close>, command substitution and
  \<^verbatim>\<open>${name:=word}\<close>.
\<close>

type_synonym vars = "string \<rightharpoonup> string"

type_synonym image = string

datatype build_error =
    CommandFailed string
  | BadUsage "string list"
  | NoSuchImage string
  | InvalidReference string
  | AmbiguousRedirect
  | Unsupported string

text \<open>
  The part of the build container that the buildspec acts on: the shell variables, the
  local docker image store (reference to image), the uploads to the registry in the
  order they happen, and the files written to the working directory.
\<close>

record build_state =
  vars :: vars
  images :: "string \<rightharpoonup> image"
  pushed :: "(string \<times> image) list"
  files :: "string \<rightharpoonup> string"

text \<open>
  What the build container provides from outside the buildspec: the files matching a
  pattern in the working directory (for pathname expansion), whether the ECR login
  pipeline succeeds, the image \<^verbatim>\<open>docker build\<close> produces from a Dockerfile
  and a context directory (None when the build of the image fails), whether the docker
  client accepts a string as an image reference, and whether the registry accepts an
  upload to a reference.
\<close>

type_synonym field = "(char \<times> bool) list"

record tools =
  glob :: "field \<Rightarrow> string list"
  ecr_login :: bool
  docker_build :: "string \<Rightarrow> string \<Rightarrow> image option"
  reference_ok :: "string \<Rightarrow> bool"
  registry_ok :: "string \<Rightarrow> bool"

type_synonym command = "tools \<Rightarrow> build_state \<Rightarrow> build_error + build_state"

definition newline :: char where
  "newline = CHR 0x0A"

definition backslash :: char where
  "backslash = CHR 0x5C"

text \<open>\<^verbatim>\<open>$name\<close>: the value of a variable, the empty string when it is unset.\<close>

definition param :: "vars \<Rightarrow> string \<Rightarrow> string" where
  "param vs x = (case vs x of None \<Rightarrow> [] | Some v \<Rightarrow> v)"

text \<open>The default \<^verbatim>\<open>IFS\<close>: space, tab, newline.\<close>

definition is_ifs :: "char \<Rightarrow> bool" where
  "is_ifs c \<longleftrightarrow> c = CHR '' '' \<or> c = CHR 0x09 \<or> c = newline"

text \<open>A word with an unquoted \<^verbatim>\<open>*\<close>, \<^verbatim>\<open>?\<close> or \<^verbatim>\<open>[\<close> is a pattern.\<close>

definition is_glob_char :: "char \<Rightarrow> bool" where
  "is_glob_char c \<longleftrightarrow> c = CHR ''*'' \<or> c = CHR ''?'' \<or> c = CHR ''[''"

text \<open>
  The parts of a word: literal text (quoted, or free of blanks and pattern characters, as
  all literal text of the buildspec is), an unquoted \<^verbatim>\<open>$name\<close> or
  \<^verbatim>\<open>${name}\<close>, and a \<^verbatim>\<open>$name\<close> inside double quotes.
\<close>

datatype wpart = Lit string | Param string | QParam string

text \<open>
  Every character of an expanded word carries a flag: True when it results from an
  unquoted expansion, and only such characters split fields and form patterns.
\<close>

fun part_chars :: "vars \<Rightarrow> wpart \<Rightarrow> field" where
  "part_chars vs (Lit s) = map (\<lambda>c. (c, False)) s"
| "part_chars vs (Param x) = map (\<lambda>c. (c, True)) (param vs x)"
| "part_chars vs (QParam x) = map (\<lambda>c. (c, False)) (param vs x)"

text \<open>
  Field splitting: runs of unquoted IFS white space delimit the fields, leading and
  trailing ones are dropped, and a word whose expansion is empty gives no field.
\<close>

fun split_fields :: "field \<Rightarrow> field \<Rightarrow> field list" where
  "split_fields cur [] = (if cur = [] then [] else [cur])"
| "split_fields cur ((c, a) # cs) =
     (if a \<and> is_ifs c
      then (if cur = [] then [] else [cur]) @ split_fields [] cs
      else split_fields (cur @ [(c, a)]) cs)"

text \<open>
  Pathname expansion: a pattern is replaced by the matching file names, and is left
  as it is when nothing matches.
\<close>

definition is_pattern :: "field \<Rightarrow> bool" where
  "is_pattern f = list_ex (\<lambda>(c, a). a \<and> is_glob_char c) f"

definition pathname_expansion :: "(field \<Rightarrow> string list) \<Rightarrow> field \<Rightarrow> string list" where
  "pathname_expansion g f =
     (if is_pattern f
      then (case g f of [] \<Rightarrow> [map fst f] | m # ms \<Rightarrow> m # ms)
      else [map fst f])"

definition expand_word :: "(field \<Rightarrow> string list) \<Rightarrow> vars \<Rightarrow> wpart list \<Rightarrow> string list" where
  "expand_word g vs w =
     concat (map (pathname_expansion g) (split_fields [] (concat (map (part_chars vs) w))))"

definition expand_words :: "(field \<Rightarrow> string list) \<Rightarrow> vars \<Rightarrow> wpart list list \<Rightarrow> string list" where
  "expand_words g vs ws = concat (map (expand_word g vs) ws)"

text \<open>
  The \<^verbatim>\<open>echo\<close> builtin: leading arguments made of \<^verbatim>\<open>-\<close> and the letters
  \<^verbatim>\<open>n\<close>, \<^verbatim>\<open>e\<close>, \<^verbatim>\<open>E\<close> are options; the other arguments are printed
  separated by single spaces and followed by a newline, which \<^verbatim>\<open>-n\<close> suppresses.
  The escape sequences that \<^verbatim>\<open>-e\<close> turns on are not modelled: \<open>echo\<close> is
  \<open>Unsupported\<close> when \<^verbatim>\<open>-e\<close> is in force and the text has a backslash.
\<close>

definition is_echo_flag :: "char \<Rightarrow> bool" where
  "is_echo_flag c \<longleftrightarrow> c = CHR ''n'' \<or> c = CHR ''e'' \<or> c = CHR ''E''"

definition is_echo_option :: "string \<Rightarrow> bool" where
  "is_echo_option w =
     (case w of
        [] \<Rightarrow> False
      | c # fs \<Rightarrow> c = CHR ''-'' \<and> fs \<noteq> [] \<and> list_all is_echo_flag fs)"

definition echo_flag :: "char \<Rightarrow> bool \<times> bool \<Rightarrow> bool \<times> bool" where
  "echo_flag c ne =
     (if c = CHR ''n'' then (True, snd ne)
      else if c = CHR ''e'' then (fst ne, True)
      else if c = CHR ''E'' then (fst ne, False)
      else ne)"

fun echo_options :: "bool \<times> bool \<Rightarrow> string list \<Rightarrow> (bool \<times> bool) \<times> string list" where
  "echo_options ne [] = (ne, [])"
| "echo_options ne (w # ws) =
     (if is_echo_option w then echo_options (fold echo_flag (tl w) ne) ws
      else (ne, w # ws))"

fun unwords :: "string list \<Rightarrow> string" where
  "unwords [] = []"
| "unwords [w] = w"
| "unwords (w # v # ws) = w @ CHR '' '' # unwords (v # ws)"

definition echo :: "string list \<Rightarrow> build_error + string" where
  "echo args =
     (case echo_options (False, False) args of
        ((n, e), rest) \<Rightarrow>
          if e \<and> backslash \<in> set (unwords rest) then Inl (Unsupported ''echo -e'')
          else Inr (unwords rest @ (if n then [] else [newline])))"

text \<open>
  \<^verbatim>\<open>cut -c lo-hi\<close>: of every input line the characters at the positions \<open>lo\<close> to
  \<open>hi\<close> (counted from 1), each line of output ended by a newline.
\<close>

fun lines_of :: "string \<Rightarrow> string \<Rightarrow> string list" where
  "lines_of cur [] = (if cur = [] then [] else [cur])"
| "lines_of cur (c # cs) =
     (if c = newline then cur # lines_of [] cs else lines_of (cur @ [c]) cs)"

definition cut_c :: "nat \<Rightarrow> nat \<Rightarrow> string \<Rightarrow> string" where
  "cut_c lo hi inp =
     concat (map (\<lambda>l. take (hi - (lo - 1)) (drop (lo - 1) l) @ [newline]) (lines_of [] inp))"

text \<open>\<^verbatim>\<open>$(...)\<close>: the output of the command with its trailing newlines removed.\<close>

definition command_substitution :: "string \<Rightarrow> string" where
  "command_substitution out = rev (dropWhile (\<lambda>c. c = newline) (rev out))"

text \<open>
  \<^verbatim>\<open>${name:=word}\<close>: when the variable is unset or empty it is assigned
  \<open>word\<close>; the expansion is the value the variable has afterwards.
\<close>

definition assign_default :: "vars \<Rightarrow> string \<Rightarrow> string \<Rightarrow> string \<times> vars" where
  "assign_default vs x w = (if param vs x = [] then (w, vs(x \<mapsto> w)) else (param vs x, vs))"

text \<open>
  \<^verbatim>\<open>printf format\<close> without arguments: the format is printed, with \<^verbatim>\<open>%%\<close>
  for a percent sign and the escapes \<^verbatim>\<open>\\\<close>, \<^verbatim>\<open>\n\<close> and \<^verbatim>\<open>\"\<close>. The
  conversions and the other escapes are not modelled (\<open>Unsupported\<close>).
\<close>

fun printf_format :: "string \<Rightarrow> build_error + string" where
  "printf_format [] = Inr []"
| "printf_format [c] =
     (if c = CHR ''%'' \<or> c = backslash then Inl (Unsupported ''printf'') else Inr [c])"
| "printf_format (c # d # cs) =
     (if c = CHR ''%'' then
        (if d = CHR ''%'' then map_sum id ((#) CHR ''%'') (printf_format cs)
         else Inl (Unsupported ''printf''))
      else if c = backslash then
        (if d = backslash then map_sum id ((#) backslash) (printf_format cs)
         else if d = CHR ''n'' then map_sum id ((#) newline) (printf_format cs)
         else if d = CHR 0x22 then map_sum id ((#) (CHR 0x22)) (printf_format cs)
         else Inl (Unsupported ''printf''))
      else map_sum id ((#) c) (printf_format (d # cs)))"

text \<open>
  The docker client, on its expanded arguments. \<^verbatim>\<open>build -f file -t ref path\<close> stores
  the image it builds under \<open>ref\<close>, \<^verbatim>\<open>tag src dst\<close> stores the image of \<open>src\<close>
  under \<open>dst\<close> too, \<^verbatim>\<open>push ref\<close> uploads the image stored under \<open>ref\<close>. A
  reference that the client does not accept and an upload that the registry does not
  accept fail the command.
\<close>

definition docker :: "tools \<Rightarrow> string list \<Rightarrow> build_state \<Rightarrow> build_error + build_state" where
  "docker t args s =
     (case args of
        [c, r] \<Rightarrow>
          if c = ''push'' then
            (case images s r of
               None \<Rightarrow> Inl (NoSuchImage r)
             | Some i \<Rightarrow>
                 if registry_ok t r then Inr (s\<lparr>pushed := pushed s @ [(r, i)]\<rparr>)
                 else Inl (CommandFailed ''docker push''))
          else Inl (BadUsage args)
      | [c, src, dst] \<Rightarrow>
          if c = ''tag'' then
            (case images s src of
               None \<Rightarrow> Inl (NoSuchImage src)
             | Some i \<Rightarrow>
                 if reference_ok t dst then Inr (s\<lparr>images := (images s)(dst \<mapsto> i)\<rparr>)
                 else Inl (InvalidReference dst))
          else Inl (BadUsage args)
      | [c, o1, f, o2, r, p] \<Rightarrow>
          if c = ''build'' \<and> o1 = ''-f'' \<and> o2 = ''-t'' then
            (if reference_ok t r then
               (case docker_build t f p of
                  None \<Rightarrow> Inl (CommandFailed ''docker build'')
                | Some i \<Rightarrow> Inr (s\<lparr>images := (images s)(r \<mapsto> i)\<rparr>))
             else Inl (InvalidReference r))
          else Inl (BadUsage args)
      | _ \<Rightarrow> Inl (BadUsage args))"

text \<open>Commands run in order; the first one that fails ends the run.\<close>

fun run_commands :: "command list \<Rightarrow> command" where
  "run_commands [] t s = Inr s"
| "run_commands (c # cs) t s =
     (case c t s of Inl e \<Rightarrow> Inl e | Inr s' \<Rightarrow> run_commands cs t s')"

section \<open>The buildspec: \<open>getBuildSpec\<close>\<close>

text \<open>
  \<^verbatim>\<open>echo ...\<close> and \<^verbatim>\<open>aws --version\<close> write to the build log only: they leave the
  build state as it is.
\<close>

definition to_log :: command where
  "to_log t s = Inr s"

text \<open>
  \<^verbatim>\<open>aws ecr get-login-password --region ${AWS_STACK_REGION} | docker login --username AWS
  --password-stdin ${AWS_ACCOUNT_ID}.dkr.ecr.${AWS_STACK_REGION}.amazonaws.com\<close>
\<close>

definition ecr_login_cmd :: command where
  "ecr_login_cmd t s = (if ecr_login t then Inr s else Inl (CommandFailed ''docker login''))"

text \<open>\<^verbatim>\<open>COMMIT_HASH=$(echo $CODEBUILD_RESOLVED_SOURCE_VERSION | cut -c 1-7)\<close>\<close>

definition commit_hash_cmd :: command where
  "commit_hash_cmd t s =
     (case echo (expand_word (glob t) (vars s) [Param ''CODEBUILD_RESOLVED_SOURCE_VERSION'']) of
        Inl e \<Rightarrow> Inl e
      | Inr out \<Rightarrow>
          Inr (s\<lparr>vars := (vars s)(''COMMIT_HASH'' \<mapsto> command_substitution (cut_c 1 7 out))\<rparr>))"

text \<open>\<^verbatim>\<open>IMAGE_TAG=${COMMIT_HASH:=latest}\<close>\<close>

definition image_tag_cmd :: command where
  "image_tag_cmd t s =
     (case assign_default (vars s) ''COMMIT_HASH'' ''latest'' of
        (v, vs) \<Rightarrow> Inr (s\<lparr>vars := vs(''IMAGE_TAG'' \<mapsto> v)\<rparr>))"

text \<open>\<^verbatim>\<open>docker ...\<close> with the words of its command line.\<close>

definition docker_cmd :: "wpart list list \<Rightarrow> command" where
  "docker_cmd ws t s = docker t (expand_words (glob t) (vars s) ws) s"

text \<open>
  \<^verbatim>\<open>docker build -f ${CODEBUILD_SRC_DIR}/backend/Dockerfile -t ${REPOSITORY_URI}:latest
  ./backend\<close>
\<close>

definition docker_build_cmd :: command where
  "docker_build_cmd =
     docker_cmd
       [[Lit ''build''], [Lit ''-f''], [Param ''CODEBUILD_SRC_DIR'', Lit ''/backend/Dockerfile''],
        [Lit ''-t''], [Param ''REPOSITORY_URI'', Lit '':latest''], [Lit ''./backend'']]"

text \<open>\<^verbatim>\<open>docker tag ${REPOSITORY_URI}:latest ${REPOSITORY_URI}:${IMAGE_TAG}\<close>\<close>

definition docker_tag_cmd :: command where
  "docker_tag_cmd =
     docker_cmd
       [[Lit ''tag''], [Param ''REPOSITORY_URI'', Lit '':latest''],
        [Param ''REPOSITORY_URI'', Lit '':'', Param ''IMAGE_TAG'']]"

text \<open>\<^verbatim>\<open>docker push ${REPOSITORY_URI}:latest\<close>\<close>

definition docker_push_latest_cmd :: command where
  "docker_push_latest_cmd = docker_cmd [[Lit ''push''], [Param ''REPOSITORY_URI'', Lit '':latest'']]"

text \<open>\<^verbatim>\<open>docker push ${REPOSITORY_URI}:${IMAGE_TAG}\<close>\<close>

definition docker_push_tag_cmd :: command where
  "docker_push_tag_cmd =
     docker_cmd [[Lit ''push''], [Param ''REPOSITORY_URI'', Lit '':'', Param ''IMAGE_TAG'']]"

text \<open>
  \<^verbatim>\<open>printf format > target\<close>: the output of \<^verbatim>\<open>printf\<close> becomes the content of
  the file the target word names.
\<close>

definition printf_to :: "wpart list \<Rightarrow> wpart list \<Rightarrow> command" where
  "printf_to fmt target t s =
     (case expand_word (glob t) (vars s) target of
        [f] \<Rightarrow>
          (case expand_word (glob t) (vars s) fmt of
             [w] \<Rightarrow>
               (case printf_format w of
                  Inl e \<Rightarrow> Inl e
                | Inr out \<Rightarrow> Inr (s\<lparr>files := (files s)(f \<mapsto> out)\<rparr>))
           | ws \<Rightarrow> Inl (BadUsage (''printf'' # ws)))
      | _ \<Rightarrow> Inl AmbiguousRedirect)"

text \<open>
  \<^verbatim>\<open>printf "[{\"name\": \"$CONTAINER_NAME\", \"imageUri\":
  \"$REPOSITORY_URI:$IMAGE_TAG\"}]" > docker_image_definition.json\<close>
  (the text the shell receives: in the TypeScript string literal every backslash is
  doubled). Inside the double quotes \<^verbatim>\<open>\"\<close> stands for a double quote.
\<close>

definition image_definition_cmd :: command where
  \<open>image_definition_cmd =
     printf_to
       [Lit ''[{"name": "'', QParam ''CONTAINER_NAME'', Lit ''", "imageUri": "'',
        QParam ''REPOSITORY_URI'', Lit '':'', QParam ''IMAGE_TAG'', Lit ''"}]'']
       [Lit ''docker_image_definition.json'']\<close>

record build_spec =
  version :: string
  env_shell :: string
  pre_build :: "command list"
  build :: "command list"
  post_build :: "command list"
  artifacts_files :: "string list"

definition getBuildSpec :: build_spec where
  "getBuildSpec =
     \<lparr>version = ''0.2'',
      env_shell = ''bash'',
      pre_build =
        [to_log, to_log, to_log, to_log, ecr_login_cmd, commit_hash_cmd, to_log,
         image_tag_cmd, to_log],
      build = [to_log, to_log, docker_build_cmd, to_log, docker_tag_cmd],
      post_build =
        [to_log, to_log, docker_push_latest_cmd, docker_push_tag_cmd, image_definition_cmd],
      artifacts_files = [''docker_image_definition.json'']\<rparr>"

text \<open>
  A build runs the phases in the order \<open>pre_build\<close>, \<open>build\<close>, \<open>post_build\<close>.
  \<open>Inr\<close> is the state a build leaves whose commands all succeed; \<open>Inl\<close> says only that
  the build fails (what a failed build does after its failing command is in
  \<open>build_phases\<close> below).
\<close>

definition run_build :: "build_spec \<Rightarrow> command" where
  "run_build b t s =
     (case run_commands (pre_build b) t s of
        Inl e \<Rightarrow> Inl e
      | Inr s1 \<Rightarrow>
          (case run_commands (build b) t s1 of
             Inl e \<Rightarrow> Inl e
           | Inr s2 \<Rightarrow> run_commands (post_build b) t s2))"

text \<open>The value of \<^verbatim>\<open>$IMAGE_TAG\<close> when the \<open>pre_build\<close> phase has run.\<close>

definition image_tag :: "tools \<Rightarrow> build_state \<Rightarrow> build_error + string" where
  "image_tag t s =
     (case run_commands (pre_build getBuildSpec) t s of
        Inl e \<Rightarrow> Inl e
      | Inr s' \<Rightarrow> Inr (param (vars s') ''IMAGE_TAG''))"

text \<open>
  The output artifact of a build: the files that \<open>artifacts.files\<close> lists, each with its
  content. A listed file that the build did not write fails the upload.
\<close>

type_synonym artifact_content = "(string \<times> string) list"

definition upload_artifacts :: "build_spec \<Rightarrow> build_state \<Rightarrow> build_error + artifact_content" where
  "upload_artifacts b s =
     (case those (map (\<lambda>f. map_option (Pair f) (files s f)) (artifacts_files b)) of
        None \<Rightarrow> Inl (CommandFailed ''UPLOAD_ARTIFACTS'')
      | Some fs \<Rightarrow> Inr fs)"

section \<open>The constructs of \<open>lib/pipeline.stack.ts\<close>\<close>

text \<open>
  The constructs of the infrastructure library are modelled by the properties the stack
  passes to them. \<open>SecretValue.secretsManager\<close> refers to a secret of the secret store
  by its name or ARN; \<open>unsafePlainText\<close> is the library's way to inline a value.
\<close>

datatype secret_value = secretsManager string | unsafePlainText string

datatype event_action =
    PUSH
  | PULL_REQUEST_CREATED
  | PULL_REQUEST_UPDATED
  | PULL_REQUEST_MERGED
  | PULL_REQUEST_REOPENED

text \<open>
  \<open>FilterGroup.inEventOf(actions).andBranchIs(branch)\<close>: the filter group is kept as
  the arguments of the calls that build it.
\<close>

record filter_group =
  event_actions :: "event_action list"
  branch_is :: "string list"

definition inEventOf :: "event_action list \<Rightarrow> filter_group" where
  "inEventOf as = \<lparr>event_actions = as, branch_is = []\<rparr>"

definition andBranchIs :: "string \<Rightarrow> filter_group \<Rightarrow> filter_group" where
  "andBranchIs b fg = fg\<lparr>branch_is := branch_is fg @ [b]\<rparr>"

record github_source =
  source_owner :: string
  source_repo :: string
  webhook :: bool
  webhookFilters :: "filter_group list"

datatype build_environment_variable_type = PLAINTEXT | PARAMETER_STORE | SECRETS_MANAGER

record build_environment_variable =
  var_type :: build_environment_variable_type
  var_value :: string

record policy_statement =
  actions :: "string list"
  resources :: "string list"

record build_environment =
  buildImage :: string
  privileged :: bool

record project =
  projectName :: string
  buildSpec :: build_spec
  source :: github_source
  environment :: build_environment
  environmentVariables :: "(string \<times> build_environment_variable) list"
  addedToRolePolicy :: "policy_statement list"

text \<open>
  \<open>addedToRolePolicy\<close> holds the statements that the stack adds to the role of the project
  with \<open>addToRolePolicy\<close>, in the order of the calls. They are not the whole policy of the
  role (see \<open>role_policy\<close> below).
\<close>

definition addToRolePolicy :: "policy_statement \<Rightarrow> project \<Rightarrow> project" where
  "addToRolePolicy st p = p\<lparr>addedToRolePolicy := addedToRolePolicy p @ [st]\<rparr>"

datatype artifact = Artifact string

datatype artifact_path = ArtifactPath artifact string

datatype github_trigger = NONE | POLL | WEBHOOK

record github_source_action =
  gh_actionName :: string
  gh_owner :: string
  gh_repo :: string
  gh_branch :: string
  oauthToken :: secret_value
  gh_output :: artifact
  trigger :: github_trigger

record code_build_action =
  cb_actionName :: string
  cb_project :: project
  cb_input :: artifact
  cb_outputs :: "artifact list"

record ecs_deploy_action =
  ecs_actionName :: string
  ecs_service :: string
  imageFile :: artifact_path

datatype action =
    GitHubSourceAction github_source_action
  | CodeBuildAction code_build_action
  | EcsDeployAction ecs_deploy_action

record stage =
  stageName :: string
  stage_actions :: "action list"

record pipeline =
  pipelineName :: string
  stages :: "stage list"

record cdk_environment =
  account :: string
  region :: string

record i_repository =
  repositoryUri :: string

record container_definition =
  containerName :: string

record props =
  repository :: i_repository
  service :: string
  cluster :: string
  container :: container_definition
  env :: cdk_environment

record secret_config =
  secret_arn :: string
  secret_id :: string

definition secretConfig :: secret_config where
  "secretConfig =
     \<lparr>secret_arn = ''arn:aws:secretsmanager:eu-central-1:123456789012:secret:github/token'',
      secret_id = ''github/token''\<rparr>"

record github_config =
  owner :: string
  repo :: string
  branch :: string

definition githubConfig :: github_config where
  "githubConfig =
     \<lparr>owner = ''exanubes'', repo = ''ecs-fargate-ci-cd-pipeline'', branch = ''master''\<rparr>"

text \<open>
  What the constructor of \<open>PipelineStack\<close> creates: the CodeBuild source credentials,
  the build project with the statement the stack adds to its role, the repository that
  \<open>grantPullPush\<close> is called on for the role of the project, the two artifacts, the three
  actions and the pipeline.
\<close>

record pipeline_actions =
  source_action :: github_source_action
  build_action :: code_build_action
  deploy_action :: ecs_deploy_action

record pipeline_stack =
  accessToken :: secret_value
  stack_project :: project
  grantPullPush :: "i_repository list"
  source_artifact :: artifact
  build_artifact :: artifact
  pipelineActions :: pipeline_actions
  stack_pipeline :: pipeline

definition PipelineStack :: "props \<Rightarrow> pipeline_stack" where
  "PipelineStack p =
     (let src =
            \<lparr>source_owner = owner githubConfig,
             source_repo = repo githubConfig,
             webhook = True,
             webhookFilters = [andBranchIs (branch githubConfig) (inEventOf [PUSH])]\<rparr>;
          stack = env p;
          proj =
            addToRolePolicy
              \<lparr>actions = [''secretsmanager:GetSecretValue''],
               resources = [secret_arn secretConfig]\<rparr>
              \<lparr>projectName = ''pipeline-project'',
               buildSpec = getBuildSpec,
               source = src,
               environment = \<lparr>buildImage = ''AMAZON_LINUX_2_ARM_2'', privileged = True\<rparr>,
               environmentVariables =
                 [(''REPOSITORY_URI'',
                   \<lparr>var_type = PLAINTEXT, var_value = repositoryUri (repository p)\<rparr>),
                  (''AWS_ACCOUNT_ID'', \<lparr>var_type = PLAINTEXT, var_value = account stack\<rparr>),
                  (''AWS_STACK_REGION'', \<lparr>var_type = PLAINTEXT, var_value = region stack\<rparr>),
                  (''GITHUB_AUTH_TOKEN'',
                   \<lparr>var_type = SECRETS_MANAGER, var_value = secret_arn secretConfig\<rparr>),
                  (''CONTAINER_NAME'',
                   \<lparr>var_type = PLAINTEXT, var_value = containerName (container p)\<rparr>)],
               addedToRolePolicy = []\<rparr>;
          src_art = Artifact ''Source'';
          build_art = Artifact ''BuildOutput'';
          acts =
            \<lparr>source_action =
               \<lparr>gh_actionName = ''Github'',
                gh_owner = owner githubConfig,
                gh_repo = repo githubConfig,
                gh_branch = branch githubConfig,
                oauthToken = secretsManager ''github/cdk-pipeline'',
                gh_output = src_art,
                trigger = WEBHOOK\<rparr>,
             build_action =
               \<lparr>cb_actionName = ''CodeBuild'',
                cb_project = proj,
                cb_input = src_art,
                cb_outputs = [build_art]\<rparr>,
             deploy_action =
               \<lparr>ecs_actionName = ''ECSDeploy'',
                ecs_service = service p,
                imageFile = ArtifactPath build_art ''docker_image_definition.json''\<rparr>\<rparr>
      in \<lparr>accessToken = secretsManager (secret_id secretConfig),
          stack_project = proj,
          grantPullPush = [repository p],
          source_artifact = src_art,
          build_artifact = build_art,
          pipelineActions = acts,
          stack_pipeline =
            \<lparr>pipelineName = ''exanubes-pipeline'',
             stages =
               [\<lparr>stageName = ''Source'', stage_actions = [GitHubSourceAction (source_action acts)]\<rparr>,
                \<lparr>stageName = ''Build'', stage_actions = [CodeBuildAction (build_action acts)]\<rparr>,
                \<lparr>stageName = ''Deploy'', stage_actions = [EcsDeployAction (deploy_action acts)]\<rparr>]\<rparr>\<rparr>)"

text \<open>
  The policy of the role of the build project. Besides the statements the stack adds, the
  role carries statements that the library attaches by itself: those of the project
  construct (for the build logs, and for reading the secrets that variables of type
  \<open>SECRETS_MANAGER\<close> refer to) and those of every \<open>grantPullPush\<close>. The library is not
  among the sources, so these statements are parameters.
\<close>

record iam_library =
  project_statements :: "project \<Rightarrow> policy_statement list"
  pull_push_statements :: "i_repository \<Rightarrow> policy_statement list"

definition role_policy :: "iam_library \<Rightarrow> pipeline_stack \<Rightarrow> policy_statement list" where
  "role_policy lib st =
     project_statements lib (stack_project st) @
     addedToRolePolicy (stack_project st) @
     concat (map (pull_push_statements lib) (grantPullPush st))"

text \<open>
  The secret values among the props of the stack, and the names of the environment
  variables of a project that have a given type.
\<close>

fun is_reference :: "secret_value \<Rightarrow> bool" where
  "is_reference (secretsManager r) = True"
| "is_reference (unsafePlainText v) = False"

definition secret_values :: "pipeline_stack \<Rightarrow> secret_value list" where
  "secret_values st = [accessToken st, oauthToken (source_action (pipelineActions st))]"

definition variables_of_type :: "build_environment_variable_type \<Rightarrow> project \<Rightarrow> string list" where
  "variables_of_type ty proj = map fst (filter (\<lambda>(n, v). var_type v = ty) (environmentVariables proj))"

section \<open>A build of the project and the artifact it hands on\<close>

text \<open>
  The variables a build starts with: an environment variable of the project of type
  \<open>PLAINTEXT\<close> has its value, one of another type has what the secret store holds
  under the reference that is its value, and the build service adds its own variables
  (\<^verbatim>\<open>CODEBUILD_RESOLVED_SOURCE_VERSION\<close>, \<^verbatim>\<open>CODEBUILD_SRC_DIR\<close>).
\<close>

definition build_vars :: "project \<Rightarrow> (string \<rightharpoonup> string) \<Rightarrow> vars \<Rightarrow> vars" where
  "build_vars proj store builtin x =
     (case map_of (environmentVariables proj) x of
        None \<Rightarrow> builtin x
      | Some v \<Rightarrow> if var_type v = PLAINTEXT then Some (var_value v) else store (var_value v))"

definition start_build :: "project \<Rightarrow> (string \<rightharpoonup> string) \<Rightarrow> vars \<Rightarrow> build_state" where
  "start_build proj store builtin =
     \<lparr>vars = build_vars proj store builtin, images = Map.empty, pushed = [], files = Map.empty\<rparr>"

definition project_build ::
  "project \<Rightarrow> tools \<Rightarrow> (string \<rightharpoonup> string) \<Rightarrow> vars \<Rightarrow> build_error + build_state" where
  "project_build proj t store builtin =
     run_build (buildSpec proj) t (start_build proj store builtin)"

text \<open>
  The build action runs a build of its project and stores the files the buildspec
  exports under its output artifact; the deploy action reads its image file from the
  artifact and the path that \<open>imageFile\<close> names.
\<close>

definition run_build_action ::
  "code_build_action \<Rightarrow> tools \<Rightarrow> (string \<rightharpoonup> string) \<Rightarrow> vars
     \<Rightarrow> build_error + (artifact \<rightharpoonup> artifact_content)" where
  "run_build_action a t store builtin =
     (case project_build (cb_project a) t store builtin of
        Inl e \<Rightarrow> Inl e
      | Inr s \<Rightarrow>
          (case upload_artifacts (buildSpec (cb_project a)) s of
             Inl e \<Rightarrow> Inl e
           | Inr fs \<Rightarrow> Inr (map_of (map (\<lambda>out. (out, fs)) (cb_outputs a)))))"

fun read_artifact_path :: "(artifact \<rightharpoonup> artifact_content) \<Rightarrow> artifact_path \<Rightarrow> string option" where
  "read_artifact_path arts (ArtifactPath a f) =
     (case arts a of None \<Rightarrow> None | Some fs \<Rightarrow> map_of fs f)"

text \<open>What the deploy action of a stack reads when the build action of the stack has run.\<close>

definition deploy_image_file ::
  "pipeline_stack \<Rightarrow> tools \<Rightarrow> (string \<rightharpoonup> string) \<Rightarrow> vars \<Rightarrow> build_error + string option" where
  "deploy_image_file st t store builtin =
     (case run_build_action (build_action (pipelineActions st)) t store builtin of
        Inl e \<Rightarrow> Inl e
      | Inr arts \<Rightarrow> Inr (read_artifact_path arts (imageFile (deploy_action (pipelineActions st)))))"

text \<open>
  The image-definition record in the words of the specification: a list of objects with
  the members \<open>name\<close> and \<open>imageUri\<close>, as JSON text. In a JSON string the double
  quote, the backslash and the control characters are escaped.
\<close>

record image_definition =
  name :: string
  imageUri :: string

definition hex_digit :: "nat \<Rightarrow> char" where
  "hex_digit n = ''0123456789abcdef'' ! (n mod 16)"

definition json_char :: "char \<Rightarrow> string" where
  "json_char c =
     (if c = CHR 0x22 then [backslash, CHR 0x22]
      else if c = backslash then [backslash, backslash]
      else if of_char c < (32::nat)
        then backslash # ''u00'' @ [hex_digit (of_char c div 16), hex_digit (of_char c)]
      else [c])"

definition json_string :: "string \<Rightarrow> string" where
  "json_string s = CHR 0x22 # concat (map json_char s) @ [CHR 0x22]"

fun join_with :: "string \<Rightarrow> string list \<Rightarrow> string" where
  "join_with sep [] = []"
| "join_with sep [w] = w"
| "join_with sep (w # v # ws) = w @ sep @ join_with sep (v # ws)"

definition image_definitions_json :: "image_definition list \<Rightarrow> string" where
  \<open>image_definitions_json ds =
     ''['' @
     join_with '', ''
       (map (\<lambda>d. ''{"name": '' @ json_string (name d) @
                  '', "imageUri": '' @ json_string (imageUri d) @ ''}'') ds) @
     '']''\<close>

text \<open>
  Text that the shell and \<^verbatim>\<open>printf\<close> leave as it is: \<open>plain_word\<close> has no IFS
  white space and no pattern character, \<open>plain_text\<close> has in addition no percent sign,
  backslash, double quote or control character.
\<close>

definition plain_word :: "string \<Rightarrow> bool" where
  "plain_word w = list_all (\<lambda>c. \<not> is_ifs c \<and> \<not> is_glob_char c) w"

definition plain_char :: "char \<Rightarrow> bool" where
  "plain_char c \<longleftrightarrow>
     \<not> is_ifs c \<and> \<not> is_glob_char c \<and> c \<noteq> CHR ''%'' \<and> c \<noteq> backslash \<and> c \<noteq> CHR 0x22 \<and>
     (32::nat) \<le> of_char c"

definition plain_text :: "string \<Rightarrow> bool" where
  "plain_text w = list_all plain_char w"

text \<open>
  The build service sets \<^verbatim>\<open>CODEBUILD_RESOLVED_SOURCE_VERSION\<close> to the commit id of the
  revision it builds, a string of hexadecimal digits.
\<close>

definition is_hex_digit :: "char \<Rightarrow> bool" where
  "is_hex_digit c \<longleftrightarrow> c \<in> set ''0123456789abcdefABCDEF''"

definition commit_id :: "string \<Rightarrow> bool" where
  "commit_id r = list_all is_hex_digit r"

text \<open>
  For the proofs: a part of a word is inert when its expansion neither splits nor forms
  a pattern, and \<open>part_text\<close> is the text a part expands to.
\<close>

definition inert :: "vars \<Rightarrow> wpart \<Rightarrow> bool" where
  "inert vs p = (case p of Param x \<Rightarrow> plain_word (param vs x) | _ \<Rightarrow> True)"

fun part_text :: "vars \<Rightarrow> wpart \<Rightarrow> string" where
  "part_text vs (Lit s) = s"
| "part_text vs (Param x) = param vs x"
| "part_text vs (QParam x) = param vs x"

section \<open>A run of the pipeline\<close>










section \<open>\<open>bin/infrastructure.ts\<close>: \<open>start\<close>\<close>

text \<open>
  \<open>start\<close> awaits three lookups of the package \<^verbatim>\<open>@exanubes/cdk-utils\<close>. They are
  parameters: the result of the \<open>n\<close>-th call of each, None when the call is rejected.
  The state counts the calls made so far.
\<close>

record lookups =
  resolveCurrentUserOwnerName :: "nat \<Rightarrow> string option"
  getAccountId :: "nat \<Rightarrow> string option"
  getRegion :: "nat \<Rightarrow> string option"

record calls =
  owner_calls :: nat
  account_calls :: nat
  region_calls :: nat

text \<open>
  The stacks whose files are not among the sources are parameters too: what the
  constructor of each makes of its props and hands to the stacks created after it.
\<close>

record elastic_container_stack =
  loadBalancer :: string
  ecs_stack_service :: string
  ecs_stack_cluster :: string
  ecs_stack_container :: container_definition

record lib_stacks =
  EcrStack :: "cdk_environment \<Rightarrow> i_repository"
  VpcStack :: "cdk_environment \<Rightarrow> string"
  ElasticContainerStack :: "string \<Rightarrow> i_repository \<Rightarrow> cdk_environment \<Rightarrow> elastic_container_stack"

text \<open>The app: the props every stack is created with, the pipeline stack, and the tags.\<close>

record app =
  ecr_props :: cdk_environment
  vpc_props :: cdk_environment
  ecs_props :: "string \<times> i_repository \<times> cdk_environment"
  route53_props :: "string \<times> cdk_environment"
  pipeline_props :: props
  pipeline_stack_of :: pipeline_stack
  tags :: "(string \<times> string) list"

text \<open>
  A rejected lookup ends \<open>start\<close> (the caller logs the error and exits with status 1):
  the result is None, and the lookups after it are not made.
\<close>

definition start :: "lookups \<Rightarrow> lib_stacks \<Rightarrow> calls \<Rightarrow> app option \<times> calls" where
  "start x lib c =
     (let c1 = c\<lparr>owner_calls := Suc (owner_calls c)\<rparr> in
      case resolveCurrentUserOwnerName x (owner_calls c) of
        None \<Rightarrow> (None, c1)
      | Some owner_name \<Rightarrow>
          (let c2 = c1\<lparr>account_calls := Suc (account_calls c1)\<rparr> in
           case getAccountId x (account_calls c1) of
             None \<Rightarrow> (None, c2)
           | Some acc \<Rightarrow>
               (let c3 = c2\<lparr>region_calls := Suc (region_calls c2)\<rparr> in
                case getRegion x (region_calls c2) of
                  None \<Rightarrow> (None, c3)
                | Some reg \<Rightarrow>
                    (let e = \<lparr>account = acc, region = reg\<rparr>;
                         ecr_repository = EcrStack lib e;
                         vpc = VpcStack lib e;
                         ecs = ElasticContainerStack lib vpc ecr_repository e;
                         pp =
                           \<lparr>repository = ecr_repository,
                            service = ecs_stack_service ecs,
                            cluster = ecs_stack_cluster ecs,
                            container = ecs_stack_container ecs,
                            env = e\<rparr>
                     in (Some
                           \<lparr>ecr_props = e,
                            vpc_props = e,
                            ecs_props = (vpc, ecr_repository, e),
                            route53_props = (loadBalancer ecs, e),
                            pipeline_props = pp,
                            pipeline_stack_of = PipelineStack pp,
                            tags = [(''owner'', owner_name)]\<rparr>,
                         c3)))))"

section \<open>Example inputs\<close>

text \<open>
  A build container with an empty working directory in which the login succeeds and
  the image builds, the props of a pipeline stack, and the variables the build service
  adds for a revision.
\<close>

definition example_tools :: tools where
  "example_tools =
     \<lparr>glob = (\<lambda>f. []),
      ecr_login = True,
      docker_build = (\<lambda>f p. Some ''sha256:0''),
      reference_ok = (\<lambda>r. True),
      registry_ok = (\<lambda>r. True)\<rparr>"

definition example_props :: props where
  "example_props =
     \<lparr>repository =
        \<lparr>repositoryUri = ''123456789012.dkr.ecr.eu-central-1.amazonaws.com/backend''\<rparr>,
      service = ''service'',
      cluster = ''cluster'',
      container = \<lparr>containerName = ''backend''\<rparr>,
      env = \<lparr>account = ''123456789012'', region = ''eu-central-1''\<rparr>\<rparr>"

definition example_builtin :: "string \<Rightarrow> vars" where
  "example_builtin r =
     [''CODEBUILD_RESOLVED_SOURCE_VERSION'' \<mapsto> r, ''CODEBUILD_SRC_DIR'' \<mapsto> ''/codebuild/output/src'']"

definition example_build :: "string \<Rightarrow> build_state" where
  "example_build r =
     start_build (stack_project (PipelineStack example_props)) Map.empty (example_builtin r)"

definition unresolved_build :: build_state where
  "unresolved_build =
     start_build (stack_project (PipelineStack example_props)) Map.empty Map.empty"

text \<open>A build state in which the image is built and tagged.\<close>

definition example_built :: build_state where
  "example_built =
     \<lparr>vars = [''REPOSITORY_URI'' \<mapsto> ''repo'', ''IMAGE_TAG'' \<mapsto> ''abcdef1'', ''CONTAINER_NAME'' \<mapsto> ''backend''],
      images = [''repo:latest'' \<mapsto> ''sha256:0'', ''repo:abcdef1'' \<mapsto> ''sha256:0''],
      pushed = [],
      files = Map.empty\<rparr>"



definition example_lookups :: lookups where
  "example_lookups =
     \<lparr>resolveCurrentUserOwnerName = (\<lambda>n. Some ''exanubes''),
      getAccountId = (\<lambda>n. Some (if n = 0 then ''123456789012'' else ''210987654321'')),
      getRegion = (\<lambda>n. Some (if n = 0 then ''eu-central-1'' else ''us-east-1''))\<rparr>"

definition example_lib :: lib_stacks where
  "example_lib =
     \<lparr>EcrStack = (\<lambda>e. \<lparr>repositoryUri = account e @ ''.dkr.ecr.'' @ region e @ ''.amazonaws.com/backend''\<rparr>),
      VpcStack = (\<lambda>e. ''vpc''),
      ElasticContainerStack =
        (\<lambda>v r e.
           \<lparr>loadBalancer = ''alb'',
            ecs_stack_service = ''service'',
            ecs_stack_cluster = ''cluster'',
            ecs_stack_container = \<lparr>containerName = ''backend''\<rparr>\<rparr>)\<rparr>"

definition no_calls :: calls where
  "no_calls = \<lparr>owner_calls = 0, account_calls = 0, region_calls = 0\<rparr>"

section \<open>Expansion of words without blanks and pattern characters\<close>

lemma split_fields_inert:
  "list_all (\<lambda>(c, a). \<not> (a \<and> is_ifs c)) f \<Longrightarrow>
     split_fields cur f = (if cur @ f = [] then [] else [cur @ f])"
  by (induction f arbitrary: cur) auto

lemma is_pattern_inert:
  "list_all (\<lambda>(c, a). \<not> (a \<and> is_glob_char c)) f \<Longrightarrow> \<not> is_pattern f"
  by (induction f) (auto simp: is_pattern_def)

lemma part_chars_inert:
  "inert vs p \<Longrightarrow>
     list_all (\<lambda>(c, a). \<not> (a \<and> is_ifs c)) (part_chars vs p) \<and>
     list_all (\<lambda>(c, a). \<not> (a \<and> is_glob_char c)) (part_chars vs p)"
  by (cases p) (auto simp: inert_def plain_word_def list_all_iff)

lemma word_chars_inert:
  "list_all (inert vs) w \<Longrightarrow>
     list_all (\<lambda>(c, a). \<not> (a \<and> is_ifs c)) (concat (map (part_chars vs) w)) \<and>
     list_all (\<lambda>(c, a). \<not> (a \<and> is_glob_char c)) (concat (map (part_chars vs) w))"
proof (induction w)
  case Nil
  then show ?case by simp
next
  case (Cons p w)
  then show ?case using part_chars_inert [of vs p] by simp
qed

lemma fst_part_chars: "map fst (part_chars vs p) = part_text vs p"
  by (cases p) (simp_all add: comp_def)

lemma fst_word_chars: "map fst (concat (map (part_chars vs) w)) = concat (map (part_text vs) w)"
  by (induction w) (simp_all add: fst_part_chars)

lemma expand_word_inert:
  assumes "list_all (inert vs) w"
  shows "expand_word g vs w =
    (if concat (map (part_text vs) w) = [] then [] else [concat (map (part_text vs) w)])"
proof -
  let ?f = "concat (map (part_chars vs) w)"
  have s: "split_fields [] ?f = (if ?f = [] then [] else [?f])"
    using split_fields_inert [of ?f "[]"] word_chars_inert [OF assms] by simp
  have p: "\<not> is_pattern ?f"
    using is_pattern_inert word_chars_inert [OF assms] by blast
  have e: "?f = [] \<longleftrightarrow> concat (map (part_text vs) w) = []"
    using fst_word_chars [of vs w] by (metis map_is_Nil_conv)
  show ?thesis
    using s p e by (simp add: expand_word_def pathname_expansion_def fst_word_chars)
qed

lemma echo_single: "\<not> is_echo_option w \<Longrightarrow> echo [w] = Inr (w @ [newline])"
  by (simp add: echo_def)

lemma echo_none: "echo [] = Inr [newline]"
  by (simp add: echo_def)

lemma lines_of_line: "newline \<notin> set w \<Longrightarrow> lines_of cur (w @ [newline]) = [cur @ w]"
  by (induction w arbitrary: cur) auto

lemma cut_c_line: "newline \<notin> set w \<Longrightarrow> cut_c 1 7 (w @ [newline]) = take 7 w @ [newline]"
  using lines_of_line [of w "[]"] by (simp add: cut_c_def)

lemma command_substitution_line:
  "newline \<notin> set v \<Longrightarrow> command_substitution (v @ [newline]) = v"
proof -
  assume a: "newline \<notin> set v"
  have "dropWhile (\<lambda>c. c = newline) (rev v) = rev v"
    using a by (cases "rev v") auto
  then show ?thesis by (simp add: command_substitution_def)
qed

lemma plain_word_no_newline: "plain_word w \<Longrightarrow> newline \<notin> set w"
  by (auto simp: plain_word_def list_all_iff is_ifs_def)

lemma commit_hash_plain:
  assumes "plain_word r" and "\<not> is_echo_option r"
    and "param (vars s) ''CODEBUILD_RESOLVED_SOURCE_VERSION'' = r"
  shows "commit_hash_cmd t s = Inr (s\<lparr>vars := (vars s)(''COMMIT_HASH'' \<mapsto> take 7 r)\<rparr>)"
proof -
  have w: "expand_word (glob t) (vars s) [Param ''CODEBUILD_RESOLVED_SOURCE_VERSION''] =
      (if r = [] then [] else [r])"
    using assms(1,3) by (simp add: expand_word_inert inert_def)
  have n: "newline \<notin> set r" "newline \<notin> set (take 7 r)"
    using plain_word_no_newline [OF assms(1)] by (auto dest: in_set_takeD)
  have c: "command_substitution (cut_c 1 7 (r @ [newline])) = take 7 r"
    using cut_c_line [OF n(1)] command_substitution_line [OF n(2)] by metis
  have e: "echo (expand_word (glob t) (vars s) [Param ''CODEBUILD_RESOLVED_SOURCE_VERSION'']) =
      Inr (r @ [newline])"
    using w assms(2) by (cases "r = []") (simp_all add: echo_none echo_single)
  show ?thesis
    by (simp only: commit_hash_cmd_def e c sum.case)
qed

lemma plain_word_take: "plain_word w \<Longrightarrow> plain_word (take n w)"
  by (auto simp: plain_word_def list_all_iff dest: in_set_takeD)

lemma plain_word_latest: "plain_word ''latest''"
  by (simp add: plain_word_def is_ifs_def is_glob_char_def newline_def)

lemma pre_build_plain:
  assumes "ecr_login t" and "plain_word r" and "\<not> is_echo_option r"
    and "param (vars s) ''CODEBUILD_RESOLVED_SOURCE_VERSION'' = r"
  shows "run_commands (pre_build getBuildSpec) t s =
    Inr (s\<lparr>vars := (vars s)
      (''COMMIT_HASH'' \<mapsto> (if r = [] then ''latest'' else take 7 r),
       ''IMAGE_TAG'' \<mapsto> (if r = [] then ''latest'' else take 7 r))\<rparr>)"
proof -
  have "commit_hash_cmd t s = Inr (s\<lparr>vars := (vars s)(''COMMIT_HASH'' \<mapsto> take 7 r)\<rparr>)"
    using assms(2-4) by (rule commit_hash_plain)
  then show ?thesis
    using assms(1)
    by (simp add: getBuildSpec_def to_log_def ecr_login_cmd_def image_tag_cmd_def
        assign_default_def param_def)
qed

lemma docker_build_cmd_plain:
  assumes "plain_word (param (vars s) ''CODEBUILD_SRC_DIR'')"
    and "plain_word (param (vars s) ''REPOSITORY_URI'')"
  shows "docker_build_cmd t s =
    (if reference_ok t (param (vars s) ''REPOSITORY_URI'' @ '':latest'') then
       (case docker_build t (param (vars s) ''CODEBUILD_SRC_DIR'' @ ''/backend/Dockerfile'') ''./backend'' of
          None \<Rightarrow> Inl (CommandFailed ''docker build'')
        | Some i \<Rightarrow> Inr (s\<lparr>images := (images s)(param (vars s) ''REPOSITORY_URI'' @ '':latest'' \<mapsto> i)\<rparr>))
     else Inl (InvalidReference (param (vars s) ''REPOSITORY_URI'' @ '':latest'')))"
  using assms
  by (simp add: docker_build_cmd_def docker_cmd_def expand_words_def expand_word_inert inert_def
      docker_def)

lemma docker_tag_cmd_plain:
  assumes "plain_word (param (vars s) ''REPOSITORY_URI'')"
    and "plain_word (param (vars s) ''IMAGE_TAG'')"
  shows "docker_tag_cmd t s =
    (case images s (param (vars s) ''REPOSITORY_URI'' @ '':latest'') of
       None \<Rightarrow> Inl (NoSuchImage (param (vars s) ''REPOSITORY_URI'' @ '':latest''))
     | Some i \<Rightarrow>
         if reference_ok t (param (vars s) ''REPOSITORY_URI'' @ '':'' @ param (vars s) ''IMAGE_TAG'')
         then Inr (s\<lparr>images := (images s)
           (param (vars s) ''REPOSITORY_URI'' @ '':'' @ param (vars s) ''IMAGE_TAG'' \<mapsto> i)\<rparr>)
         else Inl (InvalidReference
           (param (vars s) ''REPOSITORY_URI'' @ '':'' @ param (vars s) ''IMAGE_TAG'')))"
  using assms
  by (simp add: docker_tag_cmd_def docker_cmd_def expand_words_def expand_word_inert inert_def
      docker_def split: option.splits)

lemma docker_push_latest_cmd_plain:
  assumes "plain_word (param (vars s) ''REPOSITORY_URI'')"
  shows "docker_push_latest_cmd t s =
    (case images s (param (vars s) ''REPOSITORY_URI'' @ '':latest'') of
       None \<Rightarrow> Inl (NoSuchImage (param (vars s) ''REPOSITORY_URI'' @ '':latest''))
     | Some i \<Rightarrow>
         if registry_ok t (param (vars s) ''REPOSITORY_URI'' @ '':latest'')
         then Inr (s\<lparr>pushed := pushed s @ [(param (vars s) ''REPOSITORY_URI'' @ '':latest'', i)]\<rparr>)
         else Inl (CommandFailed ''docker push''))"
  using assms
  by (simp add: docker_push_latest_cmd_def docker_cmd_def expand_words_def expand_word_inert
      inert_def docker_def)

lemma docker_push_tag_cmd_plain:
  assumes "plain_word (param (vars s) ''REPOSITORY_URI'')"
    and "plain_word (param (vars s) ''IMAGE_TAG'')"
  shows "docker_push_tag_cmd t s =
    (case images s (param (vars s) ''REPOSITORY_URI'' @ '':'' @ param (vars s) ''IMAGE_TAG'') of
       None \<Rightarrow> Inl (NoSuchImage (param (vars s) ''REPOSITORY_URI'' @ '':'' @ param (vars s) ''IMAGE_TAG''))
     | Some i \<Rightarrow>
         if registry_ok t (param (vars s) ''REPOSITORY_URI'' @ '':'' @ param (vars s) ''IMAGE_TAG'')
         then Inr (s\<lparr>pushed := pushed s @
           [(param (vars s) ''REPOSITORY_URI'' @ '':'' @ param (vars s) ''IMAGE_TAG'', i)]\<rparr>)
         else Inl (CommandFailed ''docker push''))"
  using assms
  by (simp add: docker_push_tag_cmd_def docker_cmd_def expand_words_def expand_word_inert
      inert_def docker_def split: option.splits)

lemma printf_format_plain:
  "list_all (\<lambda>c. c \<noteq> CHR ''%'' \<and> c \<noteq> backslash) w \<Longrightarrow> printf_format w = Inr w"
  by (induction w rule: printf_format.induct) auto

lemma image_definition_cmd_pushed:
  "image_definition_cmd t s = Inr s' \<Longrightarrow> pushed s' = pushed s \<and> images s' = images s"
  by (auto simp: image_definition_cmd_def printf_to_def split: list.splits sum.splits)

lemma pre_build_login:
  "\<not> ecr_login t \<Longrightarrow> run_commands (pre_build getBuildSpec) t s = Inl (CommandFailed ''docker login'')"
  by (simp add: getBuildSpec_def to_log_def ecr_login_cmd_def)

lemma build_phase_plain:
  assumes "plain_word (param (vars s) ''CODEBUILD_SRC_DIR'')"
    and "plain_word (param (vars s) ''REPOSITORY_URI'')"
    and "plain_word (param (vars s) ''IMAGE_TAG'')"
  shows "run_commands (build getBuildSpec) t s =
    (if reference_ok t (param (vars s) ''REPOSITORY_URI'' @ '':latest'') then
       (case docker_build t (param (vars s) ''CODEBUILD_SRC_DIR'' @ ''/backend/Dockerfile'') ''./backend'' of
          None \<Rightarrow> Inl (CommandFailed ''docker build'')
        | Some i \<Rightarrow>
            if reference_ok t (param (vars s) ''REPOSITORY_URI'' @ '':'' @ param (vars s) ''IMAGE_TAG'')
            then Inr (s\<lparr>images := (images s)
              (param (vars s) ''REPOSITORY_URI'' @ '':latest'' \<mapsto> i,
               param (vars s) ''REPOSITORY_URI'' @ '':'' @ param (vars s) ''IMAGE_TAG'' \<mapsto> i)\<rparr>)
            else Inl (InvalidReference
              (param (vars s) ''REPOSITORY_URI'' @ '':'' @ param (vars s) ''IMAGE_TAG'')))
     else Inl (InvalidReference (param (vars s) ''REPOSITORY_URI'' @ '':latest'')))"
proof -
  let ?l = "param (vars s) ''REPOSITORY_URI'' @ '':latest''"
  let ?g = "param (vars s) ''REPOSITORY_URI'' @ '':'' @ param (vars s) ''IMAGE_TAG''"
  have b: "docker_build_cmd t s =
    (if reference_ok t ?l then
       (case docker_build t (param (vars s) ''CODEBUILD_SRC_DIR'' @ ''/backend/Dockerfile'') ''./backend'' of
          None \<Rightarrow> Inl (CommandFailed ''docker build'')
        | Some i \<Rightarrow> Inr (s\<lparr>images := (images s)(?l \<mapsto> i)\<rparr>))
     else Inl (InvalidReference ?l))"
    using assms(1,2) by (rule docker_build_cmd_plain)
  have g: "docker_tag_cmd t (s\<lparr>images := (images s)(?l \<mapsto> i)\<rparr>) =
    (if reference_ok t ?g
     then Inr (s\<lparr>images := (images s)(?l \<mapsto> i, ?g \<mapsto> i)\<rparr>)
     else Inl (InvalidReference ?g))" for i
    using docker_tag_cmd_plain [of "s\<lparr>images := (images s)(?l \<mapsto> i)\<rparr>" t] assms(2,3)
    by simp
  show ?thesis
    by (simp add: getBuildSpec_def to_log_def b g split: option.splits)
qed

lemma post_build_pushes:
  assumes "plain_word (param (vars s) ''REPOSITORY_URI'')"
    and "plain_word (param (vars s) ''IMAGE_TAG'')"
    and "run_commands (post_build getBuildSpec) t s = Inr s'"
  shows "\<exists>i j. images s (param (vars s) ''REPOSITORY_URI'' @ '':latest'') = Some i \<and>
      images s (param (vars s) ''REPOSITORY_URI'' @ '':'' @ param (vars s) ''IMAGE_TAG'') = Some j \<and>
      pushed s' = pushed s @
        [(param (vars s) ''REPOSITORY_URI'' @ '':latest'', i),
         (param (vars s) ''REPOSITORY_URI'' @ '':'' @ param (vars s) ''IMAGE_TAG'', j)]"
proof -
  let ?l = "param (vars s) ''REPOSITORY_URI'' @ '':latest''"
  let ?g = "param (vars s) ''REPOSITORY_URI'' @ '':'' @ param (vars s) ''IMAGE_TAG''"
  from assms(3) obtain s1 s2 where
    p1: "docker_push_latest_cmd t s = Inr s1" and
    p2: "docker_push_tag_cmd t s1 = Inr s2" and
    p3: "image_definition_cmd t s2 = Inr s'"
    by (auto simp: getBuildSpec_def to_log_def split: sum.splits)
  from p1 obtain i where i: "images s ?l = Some i" and s1: "s1 = s\<lparr>pushed := pushed s @ [(?l, i)]\<rparr>"
    using assms(1) by (auto simp: docker_push_latest_cmd_plain split: option.splits if_splits)
  have "plain_word (param (vars s1) ''REPOSITORY_URI'')" "plain_word (param (vars s1) ''IMAGE_TAG'')"
    using assms(1,2) s1 by simp_all
  with p2 obtain j where j: "images s1 ?g = Some j" and s2: "s2 = s1\<lparr>pushed := pushed s1 @ [(?g, j)]\<rparr>"
    using s1 by (auto simp: docker_push_tag_cmd_plain split: option.splits if_splits)
  have "pushed s' = pushed s2"
    using image_definition_cmd_pushed [OF p3] by simp
  then show ?thesis
    using i j s1 s2 by simp
qed

lemma commit_id_plain: "commit_id r \<Longrightarrow> plain_word r \<and> \<not> is_echo_option r"
proof -
  assume a: "commit_id r"
  have "\<not> is_ifs c \<and> \<not> is_glob_char c \<and> c \<noteq> CHR ''-''" if "is_hex_digit c" for c
    using that by (auto simp: is_hex_digit_def is_ifs_def is_glob_char_def newline_def)
  then show ?thesis
    using a by (cases r) (auto simp: commit_id_def plain_word_def is_echo_option_def list_all_iff)
qed

lemma pre_build_result:
  assumes "run_commands (pre_build getBuildSpec) t s = Inr s1"
  shows "\<exists>tag. image_tag t s = Inr tag \<and>
    s1 = s\<lparr>vars := (vars s)(''COMMIT_HASH'' \<mapsto> tag, ''IMAGE_TAG'' \<mapsto> tag)\<rparr>"
  using assms
  by (auto simp: image_tag_def getBuildSpec_def to_log_def ecr_login_cmd_def commit_hash_cmd_def
      image_tag_cmd_def assign_default_def param_def split: sum.splits if_splits)

lemmas ex_defs = example_tools_def example_build_def unresolved_build_def example_builtin_def
  example_props_def start_build_def build_vars_def PipelineStack_def addToRolePolicy_def
  param_def plain_word_def is_ifs_def is_glob_char_def newline_def is_echo_option_def
  is_echo_flag_def Let_def

section \<open>The image tag\<close>

text \<open>
  Claim C1. The revision identifier reaches the shell in
  \<^verbatim>\<open>$CODEBUILD_RESOLVED_SOURCE_VERSION\<close>. For every revision identifier that has no
  blank (space, tab, newline) and no pattern character (\<^verbatim>\<open>*\<close>, \<^verbatim>\<open>?\<close>,
  \<^verbatim>\<open>[\<close>) and is not an option of \<^verbatim>\<open>echo\<close>, and so for every commit id
  (\<open>commit_id_plain\<close>), the image tag that the \<open>pre_build\<close> phase computes is the first
  7 characters of the identifier; it is \<^verbatim>\<open>latest\<close> when the identifier is empty or
  the variable is unset.
\<close>

theorem image_tag_of_revision:
  assumes "ecr_login t" and "plain_word r" and "\<not> is_echo_option r"
    and "param (vars s) ''CODEBUILD_RESOLVED_SOURCE_VERSION'' = r"
  shows "image_tag t s = Inr (if r = [] then ''latest'' else take 7 r)"
  using pre_build_plain [OF assms] by (simp add: image_tag_def param_def)

text \<open>
  The theorem at the revision \<^verbatim>\<open>abcdef1234567\<close>, at the empty revision and at a build
  whose revision variable is unset.
\<close>

theorem image_tag_of_revision_witness:
  "image_tag example_tools (example_build ''abcdef1234567'') = Inr ''abcdef1'' \<and>
   image_tag example_tools (example_build '''') = Inr ''latest'' \<and>
   image_tag example_tools unresolved_build = Inr ''latest''"
  using image_tag_of_revision [of example_tools "''abcdef1234567''" "example_build ''abcdef1234567''"]
    image_tag_of_revision [of example_tools "''''" "example_build ''''"]
    image_tag_of_revision [of example_tools "''''" unresolved_build]
  by (simp add: ex_defs)

text \<open>
  The hypothesis on blanks is needed, because \<open>commit_hash_cmd\<close> expands the variable
  without quotes: a value that starts with a space loses the space to field splitting.
  The build service does not supply such a value.
\<close>

lemma leading_blank_is_dropped:
  "image_tag example_tools (example_build '' abcdef1234567'') = Inr ''abcdef1'' \<and>
   take 7 '' abcdef1234567'' = '' abcdef''"
  by code_simp

section \<open>The uploads of a build\<close>

text \<open>
  Claim C4, as the code has it. In a build of the buildspec that succeeds, with a
  repository URI, a source directory and an image tag (the one the \<open>pre_build\<close> phase
  computed from the revision) free of blanks and pattern characters, the push makes
  exactly two uploads to the registry: the image that \<^verbatim>\<open>docker build\<close> produced,
  first under the tag \<^verbatim>\<open>latest\<close> and then under the image tag. The two references are
  the same exactly when the image tag is \<^verbatim>\<open>latest\<close>; for every other image tag the
  image is uploaded under two different tags.
\<close>

theorem pushed_tags:
  assumes "run_build getBuildSpec t s = Inr s'"
    and "image_tag t s = Inr tag"
    and "plain_word tag"
    and "plain_word (param (vars s) ''CODEBUILD_SRC_DIR'')"
    and "plain_word (param (vars s) ''REPOSITORY_URI'')"
  shows "(\<exists>i. docker_build t (param (vars s) ''CODEBUILD_SRC_DIR'' @ ''/backend/Dockerfile'') ''./backend'' = Some i \<and>
      pushed s' = pushed s @
        [(param (vars s) ''REPOSITORY_URI'' @ '':latest'', i),
         (param (vars s) ''REPOSITORY_URI'' @ '':'' @ tag, i)]) \<and>
    ((param (vars s) ''REPOSITORY_URI'' @ '':latest'' =
      param (vars s) ''REPOSITORY_URI'' @ '':'' @ tag) = (tag = ''latest''))"
proof -
  let ?s1 = "s\<lparr>vars := (vars s)(''COMMIT_HASH'' \<mapsto> tag, ''IMAGE_TAG'' \<mapsto> tag)\<rparr>"
  let ?uri = "param (vars s) ''REPOSITORY_URI''"
  let ?src = "param (vars s) ''CODEBUILD_SRC_DIR''"
  from assms(1) obtain s1 where p: "run_commands (pre_build getBuildSpec) t s = Inr s1"
    by (auto simp: run_build_def split: sum.splits)
  have pre: "run_commands (pre_build getBuildSpec) t s = Inr ?s1"
    using pre_build_result [OF p] assms(2) p by auto
  have v: "param (vars ?s1) ''CODEBUILD_SRC_DIR'' = ?src" "param (vars ?s1) ''REPOSITORY_URI'' = ?uri"
    "param (vars ?s1) ''IMAGE_TAG'' = tag"
    by (simp_all add: param_def)
  have bld: "run_commands (build getBuildSpec) t ?s1 =
    (if reference_ok t (?uri @ '':latest'') then
       (case docker_build t (?src @ ''/backend/Dockerfile'') ''./backend'' of
          None \<Rightarrow> Inl (CommandFailed ''docker build'')
        | Some i \<Rightarrow>
            if reference_ok t (?uri @ '':'' @ tag)
            then Inr (?s1\<lparr>images := (images ?s1)(?uri @ '':latest'' \<mapsto> i, ?uri @ '':'' @ tag \<mapsto> i)\<rparr>)
            else Inl (InvalidReference (?uri @ '':'' @ tag)))
     else Inl (InvalidReference (?uri @ '':latest'')))"
    using build_phase_plain [of ?s1 t] assms(3,4,5) unfolding v by simp
  from assms(1) pre bld obtain i where
    i: "docker_build t (?src @ ''/backend/Dockerfile'') ''./backend'' = Some i" and
    post: "run_commands (post_build getBuildSpec) t
      (?s1\<lparr>images := (images ?s1)(?uri @ '':latest'' \<mapsto> i, ?uri @ '':'' @ tag \<mapsto> i)\<rparr>) = Inr s'"
    by (auto simp: run_build_def split: option.splits if_splits)
  let ?s2 = "?s1\<lparr>images := (images ?s1)(?uri @ '':latest'' \<mapsto> i, ?uri @ '':'' @ tag \<mapsto> i)\<rparr>"
  have v2: "param (vars ?s2) ''REPOSITORY_URI'' = ?uri" "param (vars ?s2) ''IMAGE_TAG'' = tag"
    by (simp_all add: param_def)
  have "\<exists>a b. images ?s2 (?uri @ '':latest'') = Some a \<and> images ?s2 (?uri @ '':'' @ tag) = Some b \<and>
      pushed s' = pushed ?s2 @ [(?uri @ '':latest'', a), (?uri @ '':'' @ tag, b)]"
    using post_build_pushes [of ?s2 t s'] assms(3,5) post unfolding v2 by simp
  then obtain a b where
    a: "images ?s2 (?uri @ '':latest'') = Some a" and b: "images ?s2 (?uri @ '':'' @ tag) = Some b" and
    p: "pushed s' = pushed ?s2 @ [(?uri @ '':latest'', a), (?uri @ '':'' @ tag, b)]"
    by blast
  have "b = i" using b by simp
  moreover have "a = i" using a by (simp split: if_splits)
  ultimately have "\<exists>i. docker_build t (?src @ ''/backend/Dockerfile'') ''./backend'' = Some i \<and>
      pushed s' = pushed s @ [(?uri @ '':latest'', i), (?uri @ '':'' @ tag, i)]"
    using i p by simp
  moreover have "(?uri @ '':latest'' = ?uri @ '':'' @ tag) = (tag = ''latest'')"
    by auto
  ultimately show ?thesis by blast
qed

text \<open>The theorem at the example build of revision \<^verbatim>\<open>abcdef1234567\<close>.\<close>

theorem pushed_tags_witness:
  "\<not> isl (run_build getBuildSpec example_tools (example_build ''abcdef1234567'')) \<and>
   pushed (projr (run_build getBuildSpec example_tools (example_build ''abcdef1234567''))) =
     [(''123456789012.dkr.ecr.eu-central-1.amazonaws.com/backend:latest'', ''sha256:0''),
      (''123456789012.dkr.ecr.eu-central-1.amazonaws.com/backend:abcdef1'', ''sha256:0'')]"
proof -
  let ?s = "example_build ''abcdef1234567''"
  have ok: "\<not> isl (run_build getBuildSpec example_tools ?s)"
    by code_simp
  then obtain s' where s': "run_build getBuildSpec example_tools ?s = Inr s'"
    by (cases "run_build getBuildSpec example_tools ?s") auto
  have tag: "image_tag example_tools ?s = Inr ''abcdef1''"
    by code_simp
  have "(\<exists>i. docker_build example_tools
        (param (vars ?s) ''CODEBUILD_SRC_DIR'' @ ''/backend/Dockerfile'') ''./backend'' = Some i \<and>
      pushed s' = pushed ?s @
        [(param (vars ?s) ''REPOSITORY_URI'' @ '':latest'', i),
         (param (vars ?s) ''REPOSITORY_URI'' @ '':'' @ ''abcdef1'', i)]) \<and>
    ((param (vars ?s) ''REPOSITORY_URI'' @ '':latest'' =
      param (vars ?s) ''REPOSITORY_URI'' @ '':'' @ ''abcdef1'') = (''abcdef1'' = ''latest''))"
    by (rule pushed_tags [OF s' tag]) (simp_all add: ex_defs)
  then have "pushed s' =
     [(''123456789012.dkr.ecr.eu-central-1.amazonaws.com/backend:latest'', ''sha256:0''),
      (''123456789012.dkr.ecr.eu-central-1.amazonaws.com/backend:abcdef1'', ''sha256:0'')]"
    by (auto simp: ex_defs)
  then show ?thesis using ok s' by simp
qed

text \<open>
  Claim C4 as it is stated, with exactly two tags, fails at a build whose revision is
  unresolved: the derived tag is \<^verbatim>\<open>latest\<close>, both uploads go to the same reference,
  and the image is in the registry under one tag.
\<close>

theorem two_tags_counterexample:
  "map fst (pushed (projr (run_build getBuildSpec example_tools unresolved_build))) =
     [''123456789012.dkr.ecr.eu-central-1.amazonaws.com/backend:latest'',
      ''123456789012.dkr.ecr.eu-central-1.amazonaws.com/backend:latest''] \<and>
   \<not> isl (run_build getBuildSpec example_tools unresolved_build)"
  by code_simp

section \<open>The image-definition record\<close>

lemma json_string_plain: "plain_text s \<Longrightarrow> json_string s = CHR 0x22 # s @ [CHR 0x22]"
proof -
  assume "plain_text s"
  then have "concat (map json_char s) = s"
    by (induction s) (auto simp: plain_text_def plain_char_def json_char_def)
  then show ?thesis by (simp add: json_string_def)
qed

lemma plain_text_append: "plain_text (a @ b) \<longleftrightarrow> plain_text a \<and> plain_text b"
  by (simp add: plain_text_def)

lemma plain_text_format: "plain_text w \<Longrightarrow> list_all (\<lambda>c. c \<noteq> CHR ''%'' \<and> c \<noteq> backslash) w"
  by (auto simp: plain_text_def plain_char_def list_all_iff)

lemma plain_text_word: "plain_text w \<Longrightarrow> plain_word w"
  by (auto simp: plain_text_def plain_char_def plain_word_def list_all_iff)

lemma plain_text_take: "plain_text w \<Longrightarrow> plain_text (take n w)"
  by (auto simp: plain_text_def list_all_iff dest: in_set_takeD)

lemma plain_text_latest: "plain_text ''latest''"
  by (simp add: plain_text_def plain_char_def is_ifs_def is_glob_char_def newline_def backslash_def)

lemma image_definition_cmd_plain:
  assumes "plain_text (param (vars s) ''CONTAINER_NAME'')"
    and "plain_text (param (vars s) ''REPOSITORY_URI'')"
    and "plain_text (param (vars s) ''IMAGE_TAG'')"
  shows "image_definition_cmd t s =
    Inr (s\<lparr>files := (files s)(''docker_image_definition.json'' \<mapsto>
      image_definitions_json
        [\<lparr>name = param (vars s) ''CONTAINER_NAME'',
          imageUri = param (vars s) ''REPOSITORY_URI'' @ '':'' @ param (vars s) ''IMAGE_TAG''\<rparr>])\<rparr>)"
proof -
  let ?cn = "param (vars s) ''CONTAINER_NAME''"
  let ?uri = "param (vars s) ''REPOSITORY_URI''"
  let ?tag = "param (vars s) ''IMAGE_TAG''"
  let ?txt = \<open>''[{"name": "'' @ ?cn @ ''", "imageUri": "'' @ ?uri @ '':'' @ ?tag @ ''"}]''\<close>
  have f: \<open>expand_word (glob t) (vars s)
      [Lit ''[{"name": "'', QParam ''CONTAINER_NAME'', Lit ''", "imageUri": "'',
       QParam ''REPOSITORY_URI'', Lit '':'', QParam ''IMAGE_TAG'', Lit ''"}]''] = [?txt]\<close>
    by (simp add: expand_word_inert inert_def)
  have g: "expand_word (glob t) (vars s) [Lit ''docker_image_definition.json''] =
      [''docker_image_definition.json'']"
    by (simp add: expand_word_inert inert_def)
  have "list_all (\<lambda>c. c \<noteq> CHR ''%'' \<and> c \<noteq> backslash) ?txt"
    using assms [THEN plain_text_format] by (simp add: backslash_def)
  then have p: "printf_format ?txt = Inr ?txt"
    by (rule printf_format_plain)
  have "plain_text (?uri @ '':'' @ ?tag)"
    using assms(2,3)
    by (simp add: plain_text_def plain_char_def is_ifs_def is_glob_char_def newline_def backslash_def)
  then have j: "image_definitions_json [\<lparr>name = ?cn, imageUri = ?uri @ '':'' @ ?tag\<rparr>] = ?txt"
    using assms(1) by (simp add: image_definitions_json_def json_string_plain)
  show ?thesis
    by (simp only: image_definition_cmd_def printf_to_def f g j p list.case sum.case)
qed


lemma post_build_plain:
  assumes "plain_text (param (vars s) ''CONTAINER_NAME'')"
    and "plain_text (param (vars s) ''REPOSITORY_URI'')"
    and "plain_text (param (vars s) ''IMAGE_TAG'')"
    and "images s (param (vars s) ''REPOSITORY_URI'' @ '':latest'') = Some i"
    and "images s (param (vars s) ''REPOSITORY_URI'' @ '':'' @ param (vars s) ''IMAGE_TAG'') = Some j"
    and "registry_ok t (param (vars s) ''REPOSITORY_URI'' @ '':latest'')"
    and "registry_ok t (param (vars s) ''REPOSITORY_URI'' @ '':'' @ param (vars s) ''IMAGE_TAG'')"
  shows "run_commands (post_build getBuildSpec) t s =
    Inr (s\<lparr>pushed := pushed s @
           [(param (vars s) ''REPOSITORY_URI'' @ '':latest'', i),
            (param (vars s) ''REPOSITORY_URI'' @ '':'' @ param (vars s) ''IMAGE_TAG'', j)],
         files := (files s)(''docker_image_definition.json'' \<mapsto>
           image_definitions_json
             [\<lparr>name = param (vars s) ''CONTAINER_NAME'',
               imageUri = param (vars s) ''REPOSITORY_URI'' @ '':'' @ param (vars s) ''IMAGE_TAG''\<rparr>])\<rparr>)"
proof -
  let ?l = "param (vars s) ''REPOSITORY_URI'' @ '':latest''"
  let ?g = "param (vars s) ''REPOSITORY_URI'' @ '':'' @ param (vars s) ''IMAGE_TAG''"
  let ?s1 = "s\<lparr>pushed := pushed s @ [(?l, i)]\<rparr>"
  let ?s2 = "?s1\<lparr>pushed := pushed ?s1 @ [(?g, j)]\<rparr>"
  have w: "plain_word (param (vars s) ''REPOSITORY_URI'')" "plain_word (param (vars s) ''IMAGE_TAG'')"
    using assms(2,3) by (simp_all add: plain_text_word)
  have p1: "docker_push_latest_cmd t s = Inr ?s1"
    using w(1) assms(4,6) by (simp add: docker_push_latest_cmd_plain)
  have p2: "docker_push_tag_cmd t ?s1 = Inr ?s2"
    using docker_push_tag_cmd_plain [of ?s1 t] w assms(5,7) by simp
  have p3: "image_definition_cmd t ?s2 =
    Inr (?s2\<lparr>files := (files ?s2)(''docker_image_definition.json'' \<mapsto>
      image_definitions_json
        [\<lparr>name = param (vars ?s2) ''CONTAINER_NAME'',
          imageUri = param (vars ?s2) ''REPOSITORY_URI'' @ '':'' @ param (vars ?s2) ''IMAGE_TAG''\<rparr>])\<rparr>)"
    by (rule image_definition_cmd_plain) (use assms(1-3) in simp_all)
  show ?thesis
    using p1 p2 p3 by (simp add: getBuildSpec_def to_log_def)
qed

lemma run_build_plain:
  assumes "ecr_login t" and "plain_text r" and "\<not> is_echo_option r"
    and "param (vars s) ''CODEBUILD_RESOLVED_SOURCE_VERSION'' = r"
    and "plain_word (param (vars s) ''CODEBUILD_SRC_DIR'')"
    and "plain_text (param (vars s) ''REPOSITORY_URI'')"
    and "plain_text (param (vars s) ''CONTAINER_NAME'')"
    and "docker_build t (param (vars s) ''CODEBUILD_SRC_DIR'' @ ''/backend/Dockerfile'') ''./backend'' = Some i"
    and "reference_ok t (param (vars s) ''REPOSITORY_URI'' @ '':latest'')"
    and "reference_ok t (param (vars s) ''REPOSITORY_URI'' @ '':'' @ (if r = [] then ''latest'' else take 7 r))"
    and "registry_ok t (param (vars s) ''REPOSITORY_URI'' @ '':latest'')"
    and "registry_ok t (param (vars s) ''REPOSITORY_URI'' @ '':'' @ (if r = [] then ''latest'' else take 7 r))"
  shows "\<exists>s'. run_build getBuildSpec t s = Inr s' \<and>
    files s' = (files s)(''docker_image_definition.json'' \<mapsto>
      image_definitions_json
        [\<lparr>name = param (vars s) ''CONTAINER_NAME'',
          imageUri = param (vars s) ''REPOSITORY_URI'' @ '':'' @
            (if r = [] then ''latest'' else take 7 r)\<rparr>])"
proof -
  let ?tag = "if r = [] then ''latest'' else take 7 r"
  let ?uri = "param (vars s) ''REPOSITORY_URI''"
  let ?src = "param (vars s) ''CODEBUILD_SRC_DIR''"
  let ?cn = "param (vars s) ''CONTAINER_NAME''"
  let ?s1 = "s\<lparr>vars := (vars s)(''COMMIT_HASH'' \<mapsto> ?tag, ''IMAGE_TAG'' \<mapsto> ?tag)\<rparr>"
  let ?s2 = "?s1\<lparr>images := (images ?s1)(?uri @ '':latest'' \<mapsto> i, ?uri @ '':'' @ ?tag \<mapsto> i)\<rparr>"
  have pre: "run_commands (pre_build getBuildSpec) t s = Inr ?s1"
    using assms(1) plain_text_word [OF assms(2)] assms(3,4) by (rule pre_build_plain)
  have tt: "plain_text ?tag"
    using assms(2) by (simp add: plain_text_take plain_text_latest)
  have v: "param (vars ?s1) ''CODEBUILD_SRC_DIR'' = ?src" "param (vars ?s1) ''REPOSITORY_URI'' = ?uri"
    "param (vars ?s1) ''IMAGE_TAG'' = ?tag"
    by (simp_all add: param_def)
  have bld: "run_commands (build getBuildSpec) t ?s1 = Inr ?s2"
    using build_phase_plain [of ?s1 t] assms(5,8,9,10) plain_text_word [OF assms(6)]
      plain_text_word [OF tt]
    unfolding v by simp
  have v2: "param (vars ?s2) ''REPOSITORY_URI'' = ?uri" "param (vars ?s2) ''IMAGE_TAG'' = ?tag"
    "param (vars ?s2) ''CONTAINER_NAME'' = ?cn"
    by (simp_all add: param_def)
  have i2: "images ?s2 (?uri @ '':latest'') = Some i" "images ?s2 (?uri @ '':'' @ ?tag) = Some i"
    by simp_all
  have post: "run_commands (post_build getBuildSpec) t ?s2 =
    Inr (?s2\<lparr>pushed := pushed ?s2 @ [(?uri @ '':latest'', i), (?uri @ '':'' @ ?tag, i)],
         files := (files ?s2)(''docker_image_definition.json'' \<mapsto>
           image_definitions_json [\<lparr>name = ?cn, imageUri = ?uri @ '':'' @ ?tag\<rparr>])\<rparr>)"
    using post_build_plain [of ?s2 i i t] assms(6,7,11,12) tt i2 unfolding v2 by simp
  show ?thesis
    using pre bld post by (simp add: run_build_def)
qed


lemma project_vars:
  "param (vars (start_build (stack_project (PipelineStack p)) store builtin)) ''REPOSITORY_URI'' =
     repositoryUri (repository p)"
  "param (vars (start_build (stack_project (PipelineStack p)) store builtin)) ''CONTAINER_NAME'' =
     containerName (container p)"
  "param (vars (start_build (stack_project (PipelineStack p)) store builtin)) ''CODEBUILD_SRC_DIR'' =
     param builtin ''CODEBUILD_SRC_DIR''"
  "param (vars (start_build (stack_project (PipelineStack p)) store builtin))
     ''CODEBUILD_RESOLVED_SOURCE_VERSION'' = param builtin ''CODEBUILD_RESOLVED_SOURCE_VERSION''"
  "files (start_build (stack_project (PipelineStack p)) store builtin) = Map.empty"
  by (simp_all add: start_build_def build_vars_def PipelineStack_def addToRolePolicy_def param_def
      Let_def)

lemma stack_build_action:
  "cb_project (build_action (pipelineActions (PipelineStack p))) = stack_project (PipelineStack p)"
  "cb_outputs (build_action (pipelineActions (PipelineStack p))) = [Artifact ''BuildOutput'']"
  "buildSpec (stack_project (PipelineStack p)) = getBuildSpec"
  "imageFile (deploy_action (pipelineActions (PipelineStack p))) =
     ArtifactPath (Artifact ''BuildOutput'') ''docker_image_definition.json''"
  by (simp_all add: PipelineStack_def addToRolePolicy_def Let_def)

text \<open>
  Claim C2. In a pipeline run whose build succeeds (the login succeeds, the image
  builds, the docker client accepts the two references and the registry the two
  uploads), the build action stores under its one output artifact \<open>BuildOutput\<close>
  exactly one file, \<^verbatim>\<open>docker_image_definition.json\<close>, and the file the deploy action
  reads is this file: the JSON text of the one-element list with the container name as
  \<open>name\<close> and the repository URI, a colon and the image tag as \<open>imageUri\<close>. The
  container name, the repository URI and the revision are free of blanks, pattern
  characters, percent signs, backslashes, double quotes and control characters, as the
  names the cloud provider admits and commit hashes are.
\<close>

theorem image_definition_handed_to_deploy:
  assumes "ecr_login t"
    and "plain_text (containerName (container p))"
    and "plain_text (repositoryUri (repository p))"
    and "plain_text r" and "\<not> is_echo_option r"
    and "param builtin ''CODEBUILD_RESOLVED_SOURCE_VERSION'' = r"
    and "plain_word (param builtin ''CODEBUILD_SRC_DIR'')"
    and "docker_build t (param builtin ''CODEBUILD_SRC_DIR'' @ ''/backend/Dockerfile'') ''./backend'' = Some i"
    and "reference_ok t (repositoryUri (repository p) @ '':latest'')"
    and "reference_ok t (repositoryUri (repository p) @ '':'' @ (if r = [] then ''latest'' else take 7 r))"
    and "registry_ok t (repositoryUri (repository p) @ '':latest'')"
    and "registry_ok t (repositoryUri (repository p) @ '':'' @ (if r = [] then ''latest'' else take 7 r))"
  shows "run_build_action (build_action (pipelineActions (PipelineStack p))) t store builtin =
      Inr [Artifact ''BuildOutput'' \<mapsto>
        [(''docker_image_definition.json'',
          image_definitions_json
            [\<lparr>name = containerName (container p),
              imageUri = repositoryUri (repository p) @ '':'' @
                (if r = [] then ''latest'' else take 7 r)\<rparr>])]] \<and>
    deploy_image_file (PipelineStack p) t store builtin =
      Inr (Some (image_definitions_json
        [\<lparr>name = containerName (container p),
          imageUri = repositoryUri (repository p) @ '':'' @
            (if r = [] then ''latest'' else take 7 r)\<rparr>]))"
proof -
  let ?s = "start_build (stack_project (PipelineStack p)) store builtin"
  let ?json = "image_definitions_json
        [\<lparr>name = containerName (container p),
          imageUri = repositoryUri (repository p) @ '':'' @
            (if r = [] then ''latest'' else take 7 r)\<rparr>]"
  have "\<exists>s'. run_build getBuildSpec t ?s = Inr s' \<and>
    files s' = (files ?s)(''docker_image_definition.json'' \<mapsto>
      image_definitions_json
        [\<lparr>name = param (vars ?s) ''CONTAINER_NAME'',
          imageUri = param (vars ?s) ''REPOSITORY_URI'' @ '':'' @
            (if r = [] then ''latest'' else take 7 r)\<rparr>])"
    by (rule run_build_plain [where i = i]) (use assms in \<open>simp_all add: project_vars\<close>)
  then obtain s' where s': "run_build getBuildSpec t ?s = Inr s'"
    and f: "files s' = [''docker_image_definition.json'' \<mapsto> ?json]"
    by (auto simp: project_vars)
  have u: "upload_artifacts getBuildSpec s' = Inr [(''docker_image_definition.json'', ?json)]"
    using f by (simp add: upload_artifacts_def getBuildSpec_def)
  have a: "run_build_action (build_action (pipelineActions (PipelineStack p))) t store builtin =
      Inr [Artifact ''BuildOutput'' \<mapsto> [(''docker_image_definition.json'', ?json)]]"
    using s' u by (simp add: run_build_action_def project_build_def stack_build_action)
  show ?thesis
    using a by (simp add: deploy_image_file_def stack_build_action)
qed

text \<open>The theorem at the example stack and the revision \<^verbatim>\<open>abcdef1234567\<close>.\<close>

theorem image_definition_handed_to_deploy_witness:
  \<open>deploy_image_file (PipelineStack example_props) example_tools Map.empty
     (example_builtin ''abcdef1234567'') =
   Inr (Some ''[{"name": "backend", "imageUri": "123456789012.dkr.ecr.eu-central-1.amazonaws.com/backend:abcdef1"}]'')\<close>
  using image_definition_handed_to_deploy [of example_tools example_props "''abcdef1234567''"
      "example_builtin ''abcdef1234567''" "''sha256:0''" Map.empty]
  by (simp add: ex_defs plain_text_def plain_char_def backslash_def image_definitions_json_def
      json_string_def json_char_def)

section \<open>The file of the image definition\<close>

lemma docker_files: "docker t args s = Inr s' \<Longrightarrow> files s' = files s"
  by (auto simp: docker_def split: list.splits if_splits option.splits)

lemma docker_cmd_files: "docker_cmd ws t s = Inr s' \<Longrightarrow> files s' = files s"
  by (auto simp: docker_cmd_def dest: docker_files)

lemma image_definition_cmd_writes:
  assumes "image_definition_cmd t s = Inr s'"
  shows "\<exists>out. files s' = (files s)(''docker_image_definition.json'' \<mapsto> out)"
proof -
  have g: "expand_word (glob t) (vars s) [Lit ''docker_image_definition.json''] =
      [''docker_image_definition.json'']"
    by (simp add: expand_word_inert inert_def)
  show ?thesis
    using assms unfolding image_definition_cmd_def printf_to_def g
    by (auto split: list.splits sum.splits)
qed

text \<open>
  Claim C9. The one file that a successful run of the \<open>post_build\<close> phase writes, the
  one file that the artifacts list of the buildspec declares, and the path from which the
  deploy action reads its image definition (in the output artifact of the build) are the
  same string \<^verbatim>\<open>docker_image_definition.json\<close>.
\<close>

theorem image_definition_file_name:
  assumes "run_commands (post_build getBuildSpec) t s = Inr s'"
  shows "(\<exists>out. files s' = (files s)(''docker_image_definition.json'' \<mapsto> out)) \<and>
    artifacts_files getBuildSpec = [''docker_image_definition.json''] \<and>
    imageFile (deploy_action (pipelineActions (PipelineStack p))) =
      ArtifactPath (build_artifact (PipelineStack p)) ''docker_image_definition.json''"
proof -
  from assms obtain s1 s2 where
    p1: "docker_push_latest_cmd t s = Inr s1" and
    p2: "docker_push_tag_cmd t s1 = Inr s2" and
    p3: "image_definition_cmd t s2 = Inr s'"
    by (auto simp: getBuildSpec_def to_log_def split: sum.splits)
  have "files s1 = files s"
    using p1 unfolding docker_push_latest_cmd_def by (rule docker_cmd_files)
  moreover have "files s2 = files s1"
    using p2 unfolding docker_push_tag_cmd_def by (rule docker_cmd_files)
  ultimately have "files s2 = files s"
    by simp
  then have "\<exists>out. files s' = (files s)(''docker_image_definition.json'' \<mapsto> out)"
    using image_definition_cmd_writes [OF p3] by simp
  then show ?thesis
    by (simp add: getBuildSpec_def PipelineStack_def addToRolePolicy_def Let_def)
qed

text \<open>The theorem at a build state in which the image is built and tagged.\<close>

theorem image_definition_file_name_witness:
  "\<not> isl (run_commands (post_build getBuildSpec) example_tools example_built) \<and>
   dom (files (projr (run_commands (post_build getBuildSpec) example_tools example_built))) =
     {''docker_image_definition.json''}"
proof -
  have ok: "\<not> isl (run_commands (post_build getBuildSpec) example_tools example_built)"
    by code_simp
  then obtain s' where s': "run_commands (post_build getBuildSpec) example_tools example_built = Inr s'"
    by (cases "run_commands (post_build getBuildSpec) example_tools example_built") auto
  have "\<exists>out. files s' = (files example_built)(''docker_image_definition.json'' \<mapsto> out)"
    using image_definition_file_name [OF s'] by blast
  then have "dom (files s') = {''docker_image_definition.json''}"
    by (auto simp: example_built_def split: if_splits)
  then show ?thesis using ok s' by simp
qed

section \<open>The props of the stack\<close>

text \<open>
  Claim C10. The GitHub source of the build project and the GitHub source action of the
  pipeline have the owner, the repository and the branch of \<open>githubConfig\<close> (the source
  of the project has the branch in its one webhook filter), and they authenticate with
  two different secrets of the secret store, \<^verbatim>\<open>github/token\<close> and
  \<^verbatim>\<open>github/cdk-pipeline\<close>.
\<close>

theorem github_sources_agree:
  "source_owner (source (stack_project (PipelineStack p))) = owner githubConfig \<and>
   gh_owner (source_action (pipelineActions (PipelineStack p))) = owner githubConfig \<and>
   source_repo (source (stack_project (PipelineStack p))) = repo githubConfig \<and>
   gh_repo (source_action (pipelineActions (PipelineStack p))) = repo githubConfig \<and>
   map branch_is (webhookFilters (source (stack_project (PipelineStack p)))) = [[branch githubConfig]] \<and>
   gh_branch (source_action (pipelineActions (PipelineStack p))) = branch githubConfig \<and>
   accessToken (PipelineStack p) = secretsManager ''github/token'' \<and>
   oauthToken (source_action (pipelineActions (PipelineStack p))) = secretsManager ''github/cdk-pipeline'' \<and>
   accessToken (PipelineStack p) \<noteq> oauthToken (source_action (pipelineActions (PipelineStack p)))"
  by (simp add: PipelineStack_def addToRolePolicy_def Let_def andBranchIs_def inEventOf_def
      secretConfig_def)

text \<open>
  The pipeline has the stages \<open>Source\<close>, \<open>Build\<close> and \<open>Deploy\<close> in this order, each
  with one action; the build action takes the artifact the source action puts out, and
  the deploy action reads from the artifact the build action puts out.
\<close>

lemma pipeline_stages:
  "map stageName (stages (stack_pipeline (PipelineStack p))) = [''Source'', ''Build'', ''Deploy''] \<and>
   map stage_actions (stages (stack_pipeline (PipelineStack p))) =
     [[GitHubSourceAction (source_action (pipelineActions (PipelineStack p)))],
      [CodeBuildAction (build_action (pipelineActions (PipelineStack p)))],
      [EcsDeployAction (deploy_action (pipelineActions (PipelineStack p)))]] \<and>
   cb_input (build_action (pipelineActions (PipelineStack p))) =
     gh_output (source_action (pipelineActions (PipelineStack p))) \<and>
   cb_outputs (build_action (pipelineActions (PipelineStack p))) =
     [build_artifact (PipelineStack p)] \<and>
   imageFile (deploy_action (pipelineActions (PipelineStack p))) =
     ArtifactPath (build_artifact (PipelineStack p)) ''docker_image_definition.json''"
  by (simp add: PipelineStack_def addToRolePolicy_def Let_def)

text \<open>
  Claim C8. The statement that the stack attaches to the role of the build project, the one
  statement it adds with \<open>addToRolePolicy\<close>, allows the action
  \<^verbatim>\<open>secretsmanager:GetSecretValue\<close> on exactly one resource, the ARN of
  \<open>secretConfig\<close>, which is the value of the environment variable
  \<^verbatim>\<open>GITHUB_AUTH_TOKEN\<close>, the only variable of type \<open>SECRETS_MANAGER\<close>. In the policy
  of the role it stands between the statements the library attaches by itself, about
  which nothing is said.
\<close>

theorem secret_policy_statement:
  "addedToRolePolicy (stack_project (PipelineStack p)) =
     [\<lparr>actions = [''secretsmanager:GetSecretValue''], resources = [secret_arn secretConfig]\<rparr>] \<and>
   map_of (environmentVariables (stack_project (PipelineStack p))) ''GITHUB_AUTH_TOKEN'' =
     Some \<lparr>var_type = SECRETS_MANAGER, var_value = secret_arn secretConfig\<rparr> \<and>
   concat (map resources (addedToRolePolicy (stack_project (PipelineStack p)))) =
     map var_value (filter (\<lambda>v. var_type v = SECRETS_MANAGER)
       (map snd (environmentVariables (stack_project (PipelineStack p))))) \<and>
   role_policy lib (PipelineStack p) =
     project_statements lib (stack_project (PipelineStack p)) @
     [\<lparr>actions = [''secretsmanager:GetSecretValue''], resources = [secret_arn secretConfig]\<rparr>] @
     pull_push_statements lib (repository p)"
  by (simp add: role_policy_def PipelineStack_def addToRolePolicy_def Let_def)

text \<open>
  Claim C6. The secret values among the props of the stack, the access token of the
  CodeBuild source credentials and the OAuth token of the source action, are references
  to secrets of the secret store by name; the environment variable
  \<^verbatim>\<open>GITHUB_AUTH_TOKEN\<close> has the type \<open>SECRETS_MANAGER\<close> and the ARN of a secret as
  its value, and it is the only variable of that type; the variables with a plain-text
  value are the repository URI, the account id, the region and the container name.
\<close>

theorem credentials_by_reference:
  "secret_values (PipelineStack p) =
     [secretsManager ''github/token'', secretsManager ''github/cdk-pipeline''] \<and>
   list_all is_reference (secret_values (PipelineStack p)) \<and>
   map_of (environmentVariables (stack_project (PipelineStack p))) ''GITHUB_AUTH_TOKEN'' =
     Some \<lparr>var_type = SECRETS_MANAGER,
       var_value = ''arn:aws:secretsmanager:eu-central-1:123456789012:secret:github/token''\<rparr> \<and>
   variables_of_type SECRETS_MANAGER (stack_project (PipelineStack p)) = [''GITHUB_AUTH_TOKEN''] \<and>
   variables_of_type PLAINTEXT (stack_project (PipelineStack p)) =
     [''REPOSITORY_URI'', ''AWS_ACCOUNT_ID'', ''AWS_STACK_REGION'', ''CONTAINER_NAME'']"
  by (simp add: secret_values_def variables_of_type_def PipelineStack_def addToRolePolicy_def
      Let_def secretConfig_def)

section \<open>The settings of the app\<close>

text \<open>\<open>start\<close> creates the app exactly when its three lookups succeed.\<close>

lemma start_succeeds:
  "fst (start x lib c) \<noteq> None \<longleftrightarrow>
     resolveCurrentUserOwnerName x (owner_calls c) \<noteq> None \<and>
     getAccountId x (account_calls c) \<noteq> None \<and>
     getRegion x (region_calls c) \<noteq> None"
  by (auto simp: start_def Let_def split: option.splits)

text \<open>
  Claim C7. A run of \<open>start\<close> that creates the app makes each of its lookups once: the
  account and the region it reads are the \<open>env\<close> of every stack it creates, and the
  pipeline stack passes them on as \<^verbatim>\<open>AWS_ACCOUNT_ID\<close> and \<^verbatim>\<open>AWS_STACK_REGION\<close>.
  The container name is the one of the container of the ECS stack, and the owner, the
  repository and the branch are those of the constant \<open>githubConfig\<close> wherever the stack
  uses them. Nothing in \<open>start\<close> or in the pipeline stack assigns to a setting, so every
  use has the value read at the start.
\<close>

theorem settings_read_once:
  assumes "start x lib c = (Some a, c')"
  shows "owner_calls c' = Suc (owner_calls c) \<and>
    account_calls c' = Suc (account_calls c) \<and>
    region_calls c' = Suc (region_calls c) \<and>
    getAccountId x (account_calls c) = Some (account (ecr_props a)) \<and>
    getRegion x (region_calls c) = Some (region (ecr_props a)) \<and>
    vpc_props a = ecr_props a \<and>
    snd (snd (ecs_props a)) = ecr_props a \<and>
    snd (route53_props a) = ecr_props a \<and>
    env (pipeline_props a) = ecr_props a \<and>
    pipeline_stack_of a = PipelineStack (pipeline_props a) \<and>
    map (\<lambda>n. map_option var_value
          (map_of (environmentVariables (stack_project (pipeline_stack_of a))) n))
      [''AWS_ACCOUNT_ID'', ''AWS_STACK_REGION'', ''CONTAINER_NAME''] =
      [Some (account (ecr_props a)), Some (region (ecr_props a)),
       Some (containerName (container (pipeline_props a)))] \<and>
    container (pipeline_props a) =
      ecs_stack_container
        (ElasticContainerStack lib (VpcStack lib (ecr_props a)) (EcrStack lib (ecr_props a))
          (ecr_props a)) \<and>
    source_owner (source (stack_project (pipeline_stack_of a))) = owner githubConfig \<and>
    gh_owner (source_action (pipelineActions (pipeline_stack_of a))) = owner githubConfig \<and>
    source_repo (source (stack_project (pipeline_stack_of a))) = repo githubConfig \<and>
    gh_repo (source_action (pipelineActions (pipeline_stack_of a))) = repo githubConfig \<and>
    map branch_is (webhookFilters (source (stack_project (pipeline_stack_of a)))) =
      [[branch githubConfig]] \<and>
    gh_branch (source_action (pipelineActions (pipeline_stack_of a))) = branch githubConfig"
proof -
  from assms obtain o_name acc reg where
    r: "resolveCurrentUserOwnerName x (owner_calls c) = Some o_name"
      "getAccountId x (account_calls c) = Some acc"
      "getRegion x (region_calls c) = Some reg"
    by (auto simp: start_def Let_def split: option.splits)
  show ?thesis
    using assms r
    by (auto simp: start_def Let_def PipelineStack_def addToRolePolicy_def andBranchIs_def
        inEventOf_def)
qed

text \<open>
  The theorem at lookups that would answer a second call with another account and
  another region.
\<close>

theorem settings_read_once_witness:
  "fst (start example_lookups example_lib no_calls) \<noteq> None \<and>
   snd (start example_lookups example_lib no_calls) =
     \<lparr>owner_calls = 1, account_calls = 1, region_calls = 1\<rparr> \<and>
   env (pipeline_props (the (fst (start example_lookups example_lib no_calls)))) =
     \<lparr>account = ''123456789012'', region = ''eu-central-1''\<rparr>"
proof -
  have ok: "fst (start example_lookups example_lib no_calls) \<noteq> None"
    unfolding start_succeeds by (simp add: example_lookups_def)
  then obtain a c' where s: "start example_lookups example_lib no_calls = (Some a, c')"
    by (cases "start example_lookups example_lib no_calls") auto
  have c: "c' = \<lparr>owner_calls = 1, account_calls = 1, region_calls = 1\<rparr>"
    using settings_read_once [OF s] by (cases c') (simp add: no_calls_def)
  have "account (ecr_props a) = ''123456789012''" "region (ecr_props a) = ''eu-central-1''"
    "env (pipeline_props a) = ecr_props a"
    using settings_read_once [OF s] by (simp_all add: no_calls_def example_lookups_def)
  then have "env (pipeline_props a) = \<lparr>account = ''123456789012'', region = ''eu-central-1''\<rparr>"
    by (cases "ecr_props a") simp
  then show ?thesis using s c by simp
qed

section \<open>The steps of a run\<close>

















end
